theory Spec2Isabelle
  imports Main "HOL-Library.List_Lexorder" "HOL-Library.Char_ord"
begin

section \<open>Domain model (internal/domain)\<close>

text \<open>
  \<^verbatim>\<open>domain.User\<close> and \<^verbatim>\<open>domain.UserCreateRequest\<close> are plain structs of strings.
  A \<^verbatim>\<open>*domain.User\<close> that may be nil is a \<open>User option\<close>.
\<close>

record User =
  ID :: string
  Name :: string
  Username :: string
  Email :: string

record UserCreateRequest =
  req_Name :: string
  req_Username :: string
  req_Email :: string

subsection \<open>Go error values\<close>

text \<open>
  The package-level error variables are created once by \<^verbatim>\<open>errors.New\<close>; each is a
  pointer and \<^verbatim>\<open>errors.Is\<close> compares it by identity. The four domain sentinels of
  \<^verbatim>\<open>internal/domain/errors.go\<close> and the two gorm sentinels the adapter names are the
  values of \<open>sentinel\<close>.
\<close>

datatype sentinel =
    ErrUserNotFound
  | ErrUsernameInUse
  | ErrEmailInUse
  | ErrIdInUse
  | gorm_ErrRecordNotFound
  | gorm_ErrInvalidData

text \<open>The fields of \<^verbatim>\<open>pq.Error\<close> and \<^verbatim>\<open>pgconn.PgError\<close> that the program or their
  \<^verbatim>\<open>Error()\<close> methods read, and the field in which each driver names the column of a
  violation (\<^verbatim>\<open>Column\<close>, \<^verbatim>\<open>ColumnName\<close>), which the program does not read.\<close>

record pq_Error =
  pq_Code :: string
  pq_Message :: string
  pq_Table :: string
  pq_Column :: string
  pq_Constraint :: string

record pgconn_PgError =
  pgconn_Severity :: string
  pgconn_Code :: string
  pgconn_Message :: string
  pgconn_ColumnName :: string
  pgconn_ConstraintName :: string

text \<open>
  A non-nil value of Go's \<^verbatim>\<open>error\<close> interface; nil is \<open>None\<close> of \<open>error option\<close>.
  \<^item> \<open>Sentinel\<close>: one of the package-level variables above;
  \<^item> \<open>ErrValueNotNullable\<close>, \<open>ErrInternalServer\<close>, \<open>ErrTransactionFailed\<close>: the three
    struct error types of \<^verbatim>\<open>internal/domain/errors.go\<close>, each with its \<^verbatim>\<open>Value\<close>;
  \<^item> \<open>ErrorString\<close>: a freshly allocated \<^verbatim>\<open>*errors.errorString\<close> (what \<^verbatim>\<open>errors.New\<close> and
    \<^verbatim>\<open>fmt.Errorf\<close> without \<^verbatim>\<open>%w\<close> return), a pointer distinct from every sentinel;
  \<^item> \<open>WrapError\<close>: \<^verbatim>\<open>*fmt.wrapError\<close>, the message and the wrapped error
    (what \<^verbatim>\<open>fmt.Errorf\<close> with one \<^verbatim>\<open>%w\<close> returns);
  \<^item> \<open>PqError\<close>, \<open>PgconnError\<close>: the two driver error shapes.
  An error wraps at most one other error, as the errors of gorm and of both drivers do;
  values that wrap several errors at once (\<^verbatim>\<open>errors.Join\<close>) are not part of the model.
\<close>

datatype error =
    Sentinel sentinel
  | ErrValueNotNullable string
  | ErrInternalServer string
  | ErrTransactionFailed string
  | ErrorString string
  | WrapError string error
  | PqError pq_Error
  | PgconnError pgconn_PgError

fun sentinel_text :: "sentinel \<Rightarrow> string" where
  "sentinel_text ErrUserNotFound = ''user not found''"
| "sentinel_text ErrUsernameInUse = ''username already in use''"
| "sentinel_text ErrEmailInUse = ''email already in use''"
| "sentinel_text ErrIdInUse = ''id already in use''"
| "sentinel_text gorm_ErrRecordNotFound = ''record not found''"
| "sentinel_text gorm_ErrInvalidData = ''unsupported data''"

text \<open>The \<^verbatim>\<open>Error()\<close> method of each error value.\<close>

fun Error :: "error \<Rightarrow> string" where
  "Error (Sentinel s) = sentinel_text s"
| "Error (ErrValueNotNullable v) = v @ '' is not nullable''"
| "Error (ErrInternalServer v) = ''internal server error: '' @ v"
| "Error (ErrTransactionFailed v) = ''error transaction failed: '' @ v"
| "Error (ErrorString m) = m"
| "Error (WrapError m e) = m"
| "Error (PqError p) = ''pq: '' @ pq_Message p"
| "Error (PgconnError p) =
     pgconn_Severity p @ '': '' @ pgconn_Message p @ '' (SQLSTATE '' @ pgconn_Code p @ '')''"

text \<open>
  \<^verbatim>\<open>errors.Is(err, target)\<close> for a sentinel target: walk the \<^verbatim>\<open>Unwrap\<close> chain and compare
  by identity. Only \<^verbatim>\<open>*fmt.wrapError\<close> has an \<^verbatim>\<open>Unwrap\<close> method; no error type of the
  program has an \<^verbatim>\<open>Is\<close> method.
\<close>

fun errors_Is :: "error \<Rightarrow> sentinel \<Rightarrow> bool" where
  "errors_Is (Sentinel s) target = (s = target)"
| "errors_Is (WrapError m e) target = errors_Is e target"
| "errors_Is _ target = False"

text \<open>\<^verbatim>\<open>errors.As\<close> for the three target types the program asks for: the first value of
  that type on the \<^verbatim>\<open>Unwrap\<close> chain.\<close>

fun errors_As_pq :: "error \<Rightarrow> pq_Error option" where
  "errors_As_pq (PqError p) = Some p"
| "errors_As_pq (WrapError m e) = errors_As_pq e"
| "errors_As_pq _ = None"

fun errors_As_pgconn :: "error \<Rightarrow> pgconn_PgError option" where
  "errors_As_pgconn (PgconnError p) = Some p"
| "errors_As_pgconn (WrapError m e) = errors_As_pgconn e"
| "errors_As_pgconn _ = None"

fun errors_As_ErrValueNotNullable :: "error \<Rightarrow> string option" where
  "errors_As_ErrValueNotNullable (ErrValueNotNullable v) = Some v"
| "errors_As_ErrValueNotNullable (WrapError m e) = errors_As_ErrValueNotNullable e"
| "errors_As_ErrValueNotNullable _ = None"

text \<open>
  \<^verbatim>\<open>fmt.Errorf(format)\<close> with no operand returns a fresh \<^verbatim>\<open>*errors.errorString\<close>. Its text
  is the format itself when the format has no \<^verbatim>\<open>%\<close>, which holds for every format the
  program passes with the column names the adapter produces; the rewriting that
  \<^verbatim>\<open>Sprintf\<close> does to a \<^verbatim>\<open>%\<close> is not part of this model. \<^verbatim>\<open>fmt.Errorf(prefix + "%w", err)\<close>
  returns a \<^verbatim>\<open>*fmt.wrapError\<close> around \<open>err\<close>.
\<close>

definition fmt_Errorf :: "string \<Rightarrow> error" where
  "fmt_Errorf format = ErrorString format"

definition fmt_Errorf_w :: "string \<Rightarrow> error \<Rightarrow> error" where
  "fmt_Errorf_w prefix err = WrapError (prefix @ Error err) err"

section \<open>Persistence entity (internal/persistence/entity)\<close>

record UserEntity =
  e_ID :: string
  e_Name :: string
  e_Username :: string
  e_Email :: string

definition ToEntity :: "User option \<Rightarrow> UserEntity" where
  "ToEntity user =
     (case user of
        None \<Rightarrow> \<lparr>e_ID = [], e_Name = [], e_Username = [], e_Email = []\<rparr>
      | Some u \<Rightarrow> \<lparr>e_ID = ID u, e_Name = Name u, e_Username = Username u, e_Email = Email u\<rparr>)"

definition FromEntity :: "UserEntity \<Rightarrow> User" where
  "FromEntity entity =
     \<lparr>ID = e_ID entity, Name = e_Name entity, Username = e_Username entity,
      Email = e_Email entity\<rparr>"

section \<open>The store handle (gorm.DB)\<close>

text \<open>
  The relational engine and gorm are outside the repository. The adapter reaches them
  through a \<^verbatim>\<open>*gorm.DB\<close>; here that handle is a record of the calls the adapter makes,
  each a function of the store state \<open>'s\<close>. Every call may answer with any driver error.
  \<^item> \<open>db_Create e\<close>: \<^verbatim>\<open>db.Create(&e).Error\<close>;
  \<^item> \<open>db_Find\<close>: \<^verbatim>\<open>db.Find(&es).Error\<close> and the rows read;
  \<^item> \<open>db_First id\<close>: \<^verbatim>\<open>db.Where("id = ?", id).First(&e).Error\<close> and the row read;
  \<^item> \<open>db_Updates e\<close>: \<^verbatim>\<open>db.Model(&UserEntity{ID: e.ID}).Updates(e)\<close>, its \<^verbatim>\<open>Error\<close> and
    \<^verbatim>\<open>RowsAffected\<close>;
  \<^item> \<open>db_Delete id\<close>: \<^verbatim>\<open>db.Delete(&UserEntity{ID: id})\<close>, its \<^verbatim>\<open>Error\<close> and \<^verbatim>\<open>RowsAffected\<close>;
  \<^item> \<open>db_Begin\<close>, \<open>db_Commit\<close>, \<open>db_Rollback\<close>: the transaction primitives that
    \<^verbatim>\<open>db.Transaction\<close> is built from.
\<close>

record 's gorm_DB =
  db_Create :: "UserEntity \<Rightarrow> 's \<Rightarrow> error option \<times> 's"
  db_Find :: "'s \<Rightarrow> (error + UserEntity list) \<times> 's"
  db_First :: "string \<Rightarrow> 's \<Rightarrow> (error + UserEntity) \<times> 's"
  db_Updates :: "UserEntity \<Rightarrow> 's \<Rightarrow> (error option \<times> int) \<times> 's"
  db_Delete :: "string \<Rightarrow> 's \<Rightarrow> (error option \<times> int) \<times> 's"
  db_Begin :: "'s \<Rightarrow> error option \<times> 's"
  db_Commit :: "'s \<Rightarrow> error option \<times> 's"
  db_Rollback :: "'s \<Rightarrow> 's"

section \<open>Relational adapter (internal/persistence/database)\<close>

record PgErrorData =
  Code :: string
  Constraint :: string

definition extractPgError :: "error option \<Rightarrow> PgErrorData option" where
  "extractPgError err =
     (case err of
        None \<Rightarrow> None
      | Some e \<Rightarrow>
          (case errors_As_pq e of
             Some pqErr \<Rightarrow>
               (let constraintName =
                      (if pq_Constraint pqErr = [] then pq_Table pqErr else pq_Constraint pqErr)
                in Some \<lparr>Code = pq_Code pqErr, Constraint = constraintName\<rparr>)
           | None \<Rightarrow>
               (case errors_As_pgconn e of
                  Some pgconnErr \<Rightarrow>
                    Some \<lparr>Code = pgconn_Code pgconnErr,
                          Constraint = pgconn_ConstraintName pgconnErr\<rparr>
                | None \<Rightarrow>
                    (if errors_Is e gorm_ErrRecordNotFound \<or> errors_Is e gorm_ErrInvalidData
                     then None else None))))"

definition PostgresRepository_Create ::
  "'s gorm_DB \<Rightarrow> User option \<Rightarrow> 's \<Rightarrow> error option \<times> 's" where
  "PostgresRepository_Create db user s =
     (let userEntity = ToEntity user;
          (result, s') = db_Create db userEntity s
      in case result of
           None \<Rightarrow> (None, s')
         | Some r \<Rightarrow>
             (case extractPgError result of
                None \<Rightarrow> (Some (ErrInternalServer (Error r)), s')
              | Some err \<Rightarrow>
                  if Code err = ''23505'' \<and> Constraint err = ''users_pkey''
                    then (Some (Sentinel ErrIdInUse), s')
                  else if Code err = ''23505'' \<and> Constraint err = ''idx_username''
                    then (Some (Sentinel ErrUsernameInUse), s')
                  else if Code err = ''23505'' \<and> Constraint err = ''idx_email''
                    then (Some (Sentinel ErrEmailInUse), s')
                  else if Code err = ''23502''
                    then (let column =
                                (if Constraint err = ''id'' \<or> Constraint err = ''username''
                                    \<or> Constraint err = ''email''
                                 then Constraint err else ''a column'')
                          in (Some (ErrValueNotNullable column), s'))
                  else (Some (ErrInternalServer (Error r)), s')))"


definition PostgresRepository_FindAll :: "'s gorm_DB \<Rightarrow> 's \<Rightarrow> (error + User list) \<times> 's" where
  "PostgresRepository_FindAll db s =
     (let (found, s') = db_Find db s
      in case found of
           Inl err \<Rightarrow> (Inl (ErrInternalServer (Error err)), s')
         | Inr userEntities \<Rightarrow> (Inr (map FromEntity userEntities), s'))"

definition PostgresRepository_FindById ::
  "'s gorm_DB \<Rightarrow> string \<Rightarrow> 's \<Rightarrow> (error + User) \<times> 's" where
  "PostgresRepository_FindById db uid s =
     (let (found, s') = db_First db uid s
      in case found of
           Inl err \<Rightarrow>
             if errors_Is err gorm_ErrRecordNotFound
             then (Inl (Sentinel ErrUserNotFound), s')
             else (Inl (ErrInternalServer (Error err)), s')
         | Inr userEntity \<Rightarrow> (Inr (FromEntity userEntity), s'))"

definition PostgresRepository_Update ::
  "'s gorm_DB \<Rightarrow> User option \<Rightarrow> 's \<Rightarrow> error option \<times> 's" where
  "PostgresRepository_Update db user s =
     (let userEntity = ToEntity user;
          ((result_Error, result_RowsAffected), s') = db_Updates db userEntity s
      in case result_Error of
           Some r \<Rightarrow>
             if errors_Is r gorm_ErrRecordNotFound
             then (Some (Sentinel ErrUserNotFound), s')
             else
               (case extractPgError result_Error of
                  None \<Rightarrow> (Some (ErrInternalServer (Error r)), s')
                | Some err \<Rightarrow>
                    if Code err = ''23505'' \<and> Constraint err = ''users_pkey''
                      then (Some (Sentinel ErrIdInUse), s')
                    else if Code err = ''23505'' \<and> Constraint err = ''idx_username''
                      then (Some (Sentinel ErrUsernameInUse), s')
                    else if Code err = ''23505'' \<and> Constraint err = ''idx_email''
                      then (Some (Sentinel ErrEmailInUse), s')
                    else if Code err = ''23502''
                      then (let column =
                                  (if Constraint err = ''id'' \<or> Constraint err = ''username''
                                      \<or> Constraint err = ''email''
                                   then Constraint err else ''a column'')
                            in (Some (ErrValueNotNullable column), s'))
                    else (Some (ErrInternalServer (Error r)), s'))
         | None \<Rightarrow>
             if result_RowsAffected = 0
             then (Some (Sentinel ErrUserNotFound), s')
             else (None, s'))"

definition PostgresRepository_Delete ::
  "'s gorm_DB \<Rightarrow> string \<Rightarrow> 's \<Rightarrow> error option \<times> 's" where
  "PostgresRepository_Delete db uid s =
     (let ((result_Error, result_RowsAffected), s') = db_Delete db uid s
      in case result_Error of
           Some r \<Rightarrow> (Some (ErrInternalServer (Error r)), s')
         | None \<Rightarrow>
             if result_RowsAffected = 0
             then (Some (Sentinel ErrUserNotFound), s')
             else (None, s'))"

subsection \<open>The repository port and the transaction port\<close>

text \<open>\<^verbatim>\<open>domain.UserRepository\<close>: the interface as a record of its five methods.\<close>

record 's UserRepository =
  Create :: "User option \<Rightarrow> 's \<Rightarrow> error option \<times> 's"
  FindAll :: "'s \<Rightarrow> (error + User list) \<times> 's"
  FindById :: "string \<Rightarrow> 's \<Rightarrow> (error + User) \<times> 's"
  Update :: "User option \<Rightarrow> 's \<Rightarrow> error option \<times> 's"
  Delete :: "string \<Rightarrow> 's \<Rightarrow> error option \<times> 's"

definition NewPostgresRepository :: "'s gorm_DB \<Rightarrow> 's UserRepository" where
  "NewPostgresRepository db =
     \<lparr>Create = PostgresRepository_Create db,
      FindAll = PostgresRepository_FindAll db,
      FindById = PostgresRepository_FindById db,
      Update = PostgresRepository_Update db,
      Delete = PostgresRepository_Delete db\<rparr>"

text \<open>
  A Go closure reads and writes the variables it captures. A unit of work is therefore a
  function of the repository handle, of the captured variables \<open>'l\<close> and of the store:
  it returns its error, the captured variables as it leaves them, and the store.
\<close>

type_synonym ('l, 's) unit_of_work =
  "'s UserRepository \<Rightarrow> 'l \<Rightarrow> 's \<Rightarrow> error option \<times> 'l \<times> 's"

type_synonym ('l, 's) UserTransactionPort =
  "('l, 's) unit_of_work \<Rightarrow> 'l \<Rightarrow> 's \<Rightarrow> error option \<times> 'l \<times> 's"

text \<open>
  \<^verbatim>\<open>(*gorm.DB).Transaction(fc)\<close> on a handle that is not already inside a transaction, as
  gorm implements it: begin, and return the error if that fails; run \<open>fc\<close>; if it
  returns an error, roll back (the outcome of the rollback is dropped) and return that
  error; otherwise commit and return the commit's error, rolling back if there is one.
\<close>

definition gorm_Transaction ::
  "'s gorm_DB \<Rightarrow> ('c \<Rightarrow> 's \<Rightarrow> error option \<times> 'c \<times> 's) \<Rightarrow> 'c \<Rightarrow> 's \<Rightarrow> error option \<times> 'c \<times> 's"
  where
  "gorm_Transaction db fc c s =
     (case db_Begin db s of
        (Some beginErr, s1) \<Rightarrow> (Some beginErr, c, s1)
      | (None, s1) \<Rightarrow>
          (case fc c s1 of
             (Some err, c', s2) \<Rightarrow> (Some err, c', db_Rollback db s2)
           | (None, c', s2) \<Rightarrow>
               (case db_Commit db s2 of
                  (Some commitErr, s3) \<Rightarrow> (Some commitErr, c', db_Rollback db s3)
                | (None, s3) \<Rightarrow> (None, c', s3))))"

text \<open>
  \<^verbatim>\<open>PostgresRepository.Execute\<close>. The closure handed to gorm captures
  \<^verbatim>\<open>capturedDomainError\<close> together with whatever \<open>fn\<close> captures. The repository given to
  \<open>fn\<close> is bound to the transaction handle, which shares the store \<open>db\<close> talks to.
\<close>

definition Execute :: "'s gorm_DB \<Rightarrow> ('l, 's) UserTransactionPort" where
  "Execute db fn l s =
     (let (txErr, (capturedDomainError, l'), s') =
            gorm_Transaction db
              (\<lambda>(capturedDomainError, l) tx.
                 let txRepo = NewPostgresRepository db;
                     (txResultErr, l', tx') = fn txRepo l tx
                 in case txResultErr of
                      Some e \<Rightarrow> (txResultErr, (txResultErr, l'), tx')
                    | None \<Rightarrow> (None, (capturedDomainError, l'), tx'))
              (None, l) s
      in case txErr of
           Some te \<Rightarrow>
             (case capturedDomainError of
                Some d \<Rightarrow> (capturedDomainError, l', s')
              | None \<Rightarrow> (Some (ErrTransactionFailed (Error te)), l', s'))
         | None \<Rightarrow> (None, l', s'))"


section \<open>Use case orchestrator (internal/application)\<close>

subsection \<open>Identifier generation\<close>

text \<open>
  \<^verbatim>\<open>ulid.MustNew(ulid.Timestamp(t), entropy).String()\<close> with
  \<^verbatim>\<open>entropy := ulid.Monotonic(rand.New(rand.NewSource(t.UnixNano())), 0)\<close>.
  The clock reading \<open>t\<close> is \<^verbatim>\<open>time.Now()\<close> in nanoseconds since the epoch. The entropy
  source is built anew on every call and seeded with \<open>t\<close>, so the ten entropy bytes are
  the first ten bytes of the generator seeded with \<open>t\<close>: \<open>rand_bytes t\<close>, read as a
  big-endian number. The generator itself (\<^verbatim>\<open>math/rand\<close>) is a parameter. The text form
  of a ULID is 26 Crockford base-32 characters: ten for the 48-bit millisecond timestamp,
  sixteen for the 80 bits of entropy. (\<^verbatim>\<open>MustNew\<close> panics on a timestamp above
  \<open>2^48 - 1\<close> ms, the year 10889; clock readings are taken below that.)
\<close>

definition Encoding :: string where
  "Encoding = ''0123456789ABCDEFGHJKMNPQRSTVWXYZ''"

fun base32 :: "nat \<Rightarrow> nat \<Rightarrow> string" where
  "base32 0 v = []"
| "base32 (Suc n) v = base32 n (v div 32) @ [Encoding ! (v mod 32)]"

definition ulid_Timestamp :: "nat \<Rightarrow> nat" where
  "ulid_Timestamp t = t div 1000000"

definition ulid_String :: "nat \<Rightarrow> nat \<Rightarrow> string" where
  "ulid_String ms entropy = base32 10 ms @ base32 16 entropy"

definition new_ULID :: "(nat \<Rightarrow> nat) \<Rightarrow> nat \<Rightarrow> string" where
  "new_ULID rand_bytes t = ulid_String (ulid_Timestamp t) (rand_bytes t)"

subsection \<open>Error mapping\<close>

definition mapRepositoryError :: "error \<Rightarrow> error" where
  "mapRepositoryError err =
     (if errors_Is err ErrUserNotFound then fmt_Errorf ''user not found''
      else if errors_Is err ErrUsernameInUse then fmt_Errorf ''username already in use''
      else if errors_Is err ErrEmailInUse then fmt_Errorf ''email already in use''
      else
        (case errors_As_ErrValueNotNullable err of
           Some errValue \<Rightarrow> fmt_Errorf (Error (ErrValueNotNullable errValue))
         | None \<Rightarrow> fmt_Errorf_w ''internal service error: '' err))"

subsection \<open>The five use cases\<close>

text \<open>
  \<^verbatim>\<open>UserServiceImpl\<close> holds a repository port \<open>Repo\<close> and a transaction port \<open>txPort\<close>;
  each method below takes the one it uses. \<open>Create\<close> also takes the clock reading its
  unit of work obtains and the random generator. The request pointer is the non-nil
  one the boundary passes.
\<close>

definition UserServiceImpl_Create ::
  "(User option, 's) UserTransactionPort \<Rightarrow> (nat \<Rightarrow> nat) \<Rightarrow> UserCreateRequest \<Rightarrow> nat \<Rightarrow> 's
     \<Rightarrow> (error + User option) \<times> 's" where
  "UserServiceImpl_Create txPort rand_bytes user t s =
     (let (err, createdUser, s') =
            txPort
              (\<lambda>repo createdUser st.
                 let newUser = \<lparr>ID = [], Name = req_Name user, Username = req_Username user,
                                Email = req_Email user\<rparr>;
                     newUser = newUser\<lparr>ID := new_ULID rand_bytes t\<rparr>;
                     (result, st') = Create repo (Some newUser) st
                 in case result of
                      Some e \<Rightarrow> (result, createdUser, st')
                    | None \<Rightarrow> (None, Some newUser, st'))
              None s
      in case err of
           Some e \<Rightarrow> (Inl (mapRepositoryError e), s')
         | None \<Rightarrow> (Inr createdUser, s'))"

definition UserServiceImpl_FindAll ::
  "'s UserRepository \<Rightarrow> 's \<Rightarrow> (error + User list) \<times> 's" where
  "UserServiceImpl_FindAll Repo s =
     (let (found, s') = FindAll Repo s
      in case found of
           Inl err \<Rightarrow> (Inl (mapRepositoryError err), s')
         | Inr users \<Rightarrow> (Inr users, s'))"

definition UserServiceImpl_FindById ::
  "'s UserRepository \<Rightarrow> string \<Rightarrow> 's \<Rightarrow> (error + User) \<times> 's" where
  "UserServiceImpl_FindById Repo uid s =
     (let (found, s') = FindById Repo uid s
      in case found of
           Inl err \<Rightarrow> (Inl (mapRepositoryError err), s')
         | Inr user \<Rightarrow> (Inr user, s'))"

definition UserServiceImpl_Update ::
  "(unit, 's) UserTransactionPort \<Rightarrow> User option \<Rightarrow> 's \<Rightarrow> (error + User option) \<times> 's" where
  "UserServiceImpl_Update txPort user s =
     (let (err, _, s') =
            txPort
              (\<lambda>repo _ st.
                 let (err, st') = Update repo user st
                 in case err of Some e \<Rightarrow> (err, (), st') | None \<Rightarrow> (None, (), st'))
              () s
      in case err of
           Some e \<Rightarrow> (Inl (mapRepositoryError e), s')
         | None \<Rightarrow> (Inr user, s'))"

definition UserServiceImpl_Delete ::
  "(unit, 's) UserTransactionPort \<Rightarrow> string \<Rightarrow> 's \<Rightarrow> error option \<times> 's" where
  "UserServiceImpl_Delete txPort uid s =
     (let (err, _, s') =
            txPort
              (\<lambda>repo _ st.
                 let (err, st') = Delete repo uid st
                 in case err of Some e \<Rightarrow> (err, (), st') | None \<Rightarrow> (None, (), st'))
              () s
      in case err of
           Some e \<Rightarrow> (Some (mapRepositoryError e), s')
         | None \<Rightarrow> (None, s'))"

section \<open>Boundary: status decided from a service error (cmd/api/http)\<close>

text \<open>The status code \<^verbatim>\<open>UserHandler.FindById\<close> and \<^verbatim>\<open>UserHandler.Update\<close> choose for
  a non-nil error returned by the service.\<close>

definition FindById_error_status :: "error \<Rightarrow> nat" where
  "FindById_error_status err = (if errors_Is err ErrUserNotFound then 404 else 500)"

definition Update_error_status :: "error \<Rightarrow> nat" where
  "Update_error_status err =
     (if errors_Is err ErrUserNotFound then 404
      else if errors_Is err ErrEmailInUse \<or> errors_Is err ErrUsernameInUse then 409
      else 500)"


section \<open>An in-memory relational store\<close>

text \<open>
  Modelled from the spec: the relational engine behind \<^verbatim>\<open>*gorm.DB\<close> is an external
  collaborator and not part of the repository. This is the persisted schema of the
  spec's section 6, one table keyed by \<open>id\<close> with unique indexes on \<open>username\<close> and
  \<open>email\<close>, as a list of rows. A unique violation is reported the way the pgx driver
  reports it, with the constraint names gorm derives from \<^verbatim>\<open>UserEntity\<close> and its tags.
  \<open>Updates\<close> is the partial update of section 4.2: it writes the non-empty fields only.
  A transaction keeps the rows as they were at \<open>Begin\<close> and puts them back on \<open>Rollback\<close>.
\<close>

record mem =
  rows :: "UserEntity list"
  saved :: "UserEntity list option"

definition unique_violation :: "string \<Rightarrow> error" where
  "unique_violation c =
     PgconnError \<lparr>pgconn_Severity = ''ERROR'', pgconn_Code = ''23505'',
                  pgconn_Message = ''duplicate key value violates unique constraint'',
                  pgconn_ColumnName = [], pgconn_ConstraintName = c\<rparr>"

definition mem_Create :: "UserEntity \<Rightarrow> mem \<Rightarrow> error option \<times> mem" where
  "mem_Create e s =
     (if e_ID e \<in> set (map e_ID (rows s))
        then (Some (unique_violation ''user_entities_pkey''), s)
      else if e_Username e \<in> set (map e_Username (rows s))
        then (Some (unique_violation ''idx_username''), s)
      else if e_Email e \<in> set (map e_Email (rows s))
        then (Some (unique_violation ''idx_email''), s)
      else (None, s\<lparr>rows := rows s @ [e]\<rparr>))"

definition mem_Find :: "mem \<Rightarrow> (error + UserEntity list) \<times> mem" where
  "mem_Find s = (Inr (rows s), s)"

definition mem_First :: "string \<Rightarrow> mem \<Rightarrow> (error + UserEntity) \<times> mem" where
  "mem_First uid s =
     (case find (\<lambda>r. e_ID r = uid) (rows s) of
        None \<Rightarrow> (Inl (Sentinel gorm_ErrRecordNotFound), s)
      | Some r \<Rightarrow> (Inr r, s))"

definition mem_Updates :: "UserEntity \<Rightarrow> mem \<Rightarrow> (error option \<times> int) \<times> mem" where
  "mem_Updates e s =
     (case find (\<lambda>r. e_ID r = e_ID e) (rows s) of
        None \<Rightarrow> ((None, 0), s)
      | Some r \<Rightarrow>
          (let r' = \<lparr>e_ID = e_ID r,
                     e_Name = (if e_Name e = [] then e_Name r else e_Name e),
                     e_Username = (if e_Username e = [] then e_Username r else e_Username e),
                     e_Email = (if e_Email e = [] then e_Email r else e_Email e)\<rparr>;
               others = filter (\<lambda>x. e_ID x \<noteq> e_ID e) (rows s)
           in if e_Username r' \<in> set (map e_Username others)
                then ((Some (unique_violation ''idx_username''), 0), s)
              else if e_Email r' \<in> set (map e_Email others)
                then ((Some (unique_violation ''idx_email''), 0), s)
              else ((None, 1),
                    s\<lparr>rows := map (\<lambda>x. if e_ID x = e_ID e then r' else x) (rows s)\<rparr>)))"

definition mem_Delete :: "string \<Rightarrow> mem \<Rightarrow> (error option \<times> int) \<times> mem" where
  "mem_Delete uid s =
     ((None, int (length (filter (\<lambda>r. e_ID r = uid) (rows s)))),
      s\<lparr>rows := filter (\<lambda>r. e_ID r \<noteq> uid) (rows s)\<rparr>)"

definition mem_Begin :: "mem \<Rightarrow> error option \<times> mem" where
  "mem_Begin s = (None, s\<lparr>saved := Some (rows s)\<rparr>)"

definition mem_Commit :: "mem \<Rightarrow> error option \<times> mem" where
  "mem_Commit s = (None, s\<lparr>saved := None\<rparr>)"

definition mem_Rollback :: "mem \<Rightarrow> mem" where
  "mem_Rollback s =
     (case saved s of None \<Rightarrow> s | Some old \<Rightarrow> \<lparr>rows = old, saved = None\<rparr>)"

definition mem_DB :: "mem gorm_DB" where
  "mem_DB =
     \<lparr>db_Create = mem_Create, db_Find = mem_Find, db_First = mem_First,
      db_Updates = mem_Updates, db_Delete = mem_Delete,
      db_Begin = mem_Begin, db_Commit = mem_Commit, db_Rollback = mem_Rollback\<rparr>"

text \<open>A store on which every statement, and the commit, fails with the given driver
  error; \<open>Begin\<close> succeeds. It stands for a constraint violation or a lost connection.\<close>

definition failing_DB :: "error \<Rightarrow> unit gorm_DB" where
  "failing_DB err =
     \<lparr>db_Create = (\<lambda>e s. (Some err, s)),
      db_Find = (\<lambda>s. (Inl err, s)),
      db_First = (\<lambda>uid s. (Inl err, s)),
      db_Updates = (\<lambda>e s. ((Some err, 0), s)),
      db_Delete = (\<lambda>uid s. ((Some err, 0), s)),
      db_Begin = (\<lambda>s. (None, s)),
      db_Commit = (\<lambda>s. (Some err, s)),
      db_Rollback = (\<lambda>s. s)\<rparr>"


text \<open>A not-null violation on a column of the table, as the engine reports it through
  each driver: code 23502, the table and the column named, no constraint name.\<close>

definition pq_not_null :: "string \<Rightarrow> error" where
  "pq_not_null column =
     PqError \<lparr>pq_Code = ''23502'', pq_Message = ''null value violates not-null constraint'',
              pq_Table = ''user_entities'', pq_Column = column, pq_Constraint = []\<rparr>"

definition pgconn_not_null :: "string \<Rightarrow> error" where
  "pgconn_not_null column =
     PgconnError \<lparr>pgconn_Severity = ''ERROR'', pgconn_Code = ''23502'',
                  pgconn_Message = ''null value violates not-null constraint'',
                  pgconn_ColumnName = column, pgconn_ConstraintName = []\<rparr>"

text \<open>An error \<^emph>\<open>identifies as a conflict kind\<close> when \<^verbatim>\<open>errors.Is\<close> matches it with one
  of the three conflict sentinels.\<close>

definition is_conflict :: "error \<Rightarrow> bool" where
  "is_conflict e =
     (errors_Is e ErrIdInUse \<or> errors_Is e ErrUsernameInUse \<or> errors_Is e ErrEmailInUse)"

section \<open>Sample data\<close>

definition jane :: User where
  "jane = \<lparr>ID = ''01'', Name = ''Jane Doe'', Username = ''janedoe123'',
           Email = ''jane.doe@example.com''\<rparr>"

text \<open>Two units of work: one inserts a user and then returns an error, one inserts a
  user and returns what the insert returned.\<close>

definition create_then_fail :: "(unit, 's) unit_of_work" where
  "create_then_fail repo l st =
     (case Create repo (Some jane) st of (_, st') \<Rightarrow> (Some (Sentinel ErrUserNotFound), l, st'))"

definition create_only :: "(unit, 's) unit_of_work" where
  "create_only repo l st =
     (case Create repo (Some jane) st of (err, st') \<Rightarrow> (err, l, st'))"

definition jane_request :: UserCreateRequest where
  "jane_request = \<lparr>req_Name = ''Jane Doe'', req_Username = ''janedoe123'',
                    req_Email = ''jane.doe@example.com''\<rparr>"

definition same_username_request :: UserCreateRequest where
  "same_username_request = \<lparr>req_Name = ''Jane Roe'', req_Username = ''janedoe123'',
                    req_Email = ''jane.roe@example.com''\<rparr>"

text \<open>An update of user \<open>01\<close> that provides a new username and nothing else.\<close>

definition rename_jane :: User where
  "rename_jane = \<lparr>ID = ''01'', Name = [], Username = ''jdoe'', Email = []\<rparr>"

section \<open>Properties of the relational adapter\<close>

subsection \<open>Auxiliary facts\<close>

text \<open>On an \<^verbatim>\<open>Unwrap\<close> chain that ends in a sentinel there is no driver error.\<close>

lemma errors_Is_no_pq: "errors_Is r t \<Longrightarrow> errors_As_pq r = None"
  by (induction r) auto

lemma errors_Is_no_pgconn: "errors_Is r t \<Longrightarrow> errors_As_pgconn r = None"
  by (induction r) auto

lemma extractPgError_of_sentinel: "errors_Is r t \<Longrightarrow> extractPgError (Some r) = None"
  by (simp add: extractPgError_def errors_Is_no_pq errors_Is_no_pgconn)

text \<open>How \<open>extractPgError\<close> reads the two driver error shapes.\<close>

lemma extractPgError_pq:
  "errors_As_pq r = Some p \<Longrightarrow>
   extractPgError (Some r) =
     Some \<lparr>Code = pq_Code p,
           Constraint = (if pq_Constraint p = [] then pq_Table p else pq_Constraint p)\<rparr>"
  by (simp add: extractPgError_def)

lemma extractPgError_pgconn:
  "errors_As_pq r = None \<Longrightarrow> errors_As_pgconn r = Some p \<Longrightarrow>
   extractPgError (Some r) = Some \<lparr>Code = pgconn_Code p, Constraint = pgconn_ConstraintName p\<rparr>"
  by (simp add: extractPgError_def)

lemma extractPgError_other:
  "errors_As_pq r = None \<Longrightarrow> errors_As_pgconn r = None \<Longrightarrow> extractPgError (Some r) = None"
  by (simp add: extractPgError_def)

text \<open>\<open>Create\<close> and \<open>Update\<close> once the answer of the store is known.\<close>

lemma PostgresRepository_Create_unfold:
  "db_Create db (ToEntity user) s = (result, s') \<Longrightarrow>
   PostgresRepository_Create db user s =
     (case result of
        None \<Rightarrow> (None, s')
      | Some r \<Rightarrow>
          (case extractPgError result of
             None \<Rightarrow> (Some (ErrInternalServer (Error r)), s')
           | Some err \<Rightarrow>
               if Code err = ''23505'' \<and> Constraint err = ''users_pkey''
                 then (Some (Sentinel ErrIdInUse), s')
               else if Code err = ''23505'' \<and> Constraint err = ''idx_username''
                 then (Some (Sentinel ErrUsernameInUse), s')
               else if Code err = ''23505'' \<and> Constraint err = ''idx_email''
                 then (Some (Sentinel ErrEmailInUse), s')
               else if Code err = ''23502''
                 then (Some (ErrValueNotNullable
                               (if Constraint err = ''id'' \<or> Constraint err = ''username''
                                   \<or> Constraint err = ''email''
                                then Constraint err else ''a column'')), s')
               else (Some (ErrInternalServer (Error r)), s')))"
  by (auto simp: PostgresRepository_Create_def Let_def split: option.splits)

lemma PostgresRepository_Update_unfold:
  "db_Updates db (ToEntity user) s = ((Some r, n), s') \<Longrightarrow>
   PostgresRepository_Update db user s =
     (if errors_Is r gorm_ErrRecordNotFound
      then (Some (Sentinel ErrUserNotFound), s')
      else
        (case extractPgError (Some r) of
           None \<Rightarrow> (Some (ErrInternalServer (Error r)), s')
         | Some err \<Rightarrow>
             if Code err = ''23505'' \<and> Constraint err = ''users_pkey''
               then (Some (Sentinel ErrIdInUse), s')
             else if Code err = ''23505'' \<and> Constraint err = ''idx_username''
               then (Some (Sentinel ErrUsernameInUse), s')
             else if Code err = ''23505'' \<and> Constraint err = ''idx_email''
               then (Some (Sentinel ErrEmailInUse), s')
             else if Code err = ''23502''
               then (Some (ErrValueNotNullable
                             (if Constraint err = ''id'' \<or> Constraint err = ''username''
                                 \<or> Constraint err = ''email''
                              then Constraint err else ''a column'')), s')
             else (Some (ErrInternalServer (Error r)), s')))"
  by (auto simp: PostgresRepository_Update_def Let_def split: option.splits)

subsection \<open>Zero affected rows\<close>

text \<open>
  Claim C4. Whenever the store answers an \<open>Update\<close> or a \<open>Delete\<close> with no driver error
  and zero affected rows, the repository returns \<open>ErrUserNotFound\<close>, never nil.
\<close>

theorem zero_rows_affected_is_NotFound:
  "(db_Updates db (ToEntity user) s = ((None, 0), s') \<longrightarrow>
      PostgresRepository_Update db user s = (Some (Sentinel ErrUserNotFound), s'))
   \<and> (db_Delete db uid s = ((None, 0), s') \<longrightarrow>
      PostgresRepository_Delete db uid s = (Some (Sentinel ErrUserNotFound), s'))"
  by (simp add: PostgresRepository_Update_def PostgresRepository_Delete_def)

text \<open>On the empty in-memory table both statements affect no row.\<close>

theorem zero_rows_affected_is_NotFound_witness:
  "db_Updates mem_DB
     (ToEntity (Some \<lparr>ID = ''01'', Name = ''Jane'', Username = ''jane'', Email = ''j@x.org''\<rparr>))
     \<lparr>rows = [], saved = None\<rparr> = ((None, 0), \<lparr>rows = [], saved = None\<rparr>)
   \<and> PostgresRepository_Update mem_DB
     (Some \<lparr>ID = ''01'', Name = ''Jane'', Username = ''jane'', Email = ''j@x.org''\<rparr>)
     \<lparr>rows = [], saved = None\<rparr> = (Some (Sentinel ErrUserNotFound), \<lparr>rows = [], saved = None\<rparr>)
   \<and> db_Delete mem_DB ''01'' \<lparr>rows = [], saved = None\<rparr> = ((None, 0), \<lparr>rows = [], saved = None\<rparr>)
   \<and> PostgresRepository_Delete mem_DB ''01'' \<lparr>rows = [], saved = None\<rparr>
       = (Some (Sentinel ErrUserNotFound), \<lparr>rows = [], saved = None\<rparr>)"
proof -
  let ?u = "Some \<lparr>ID = ''01'', Name = ''Jane'', Username = ''jane'', Email = ''j@x.org''\<rparr>"
  let ?s = "\<lparr>rows = [], saved = None\<rparr>"
  have u: "db_Updates mem_DB (ToEntity ?u) ?s = ((None, 0), ?s)"
    by (simp add: mem_DB_def mem_Updates_def)
  have d: "db_Delete mem_DB ''01'' ?s = ((None, 0), ?s)"
    by (simp add: mem_DB_def mem_Delete_def)
  from u d zero_rows_affected_is_NotFound [of mem_DB ?u ?s ?s "''01''"]
  show ?thesis by simp
qed


subsection \<open>Classification of a failed Create\<close>

text \<open>
  What \<open>Create\<close> returns when the store answers with a driver error \<open>r\<close>, by the code and
  the constraint identifier that \<open>extractPgError\<close> reads off \<open>r\<close> (for a \<^verbatim>\<open>pq.Error\<close> the
  constraint, or the table when the constraint is empty; for a \<^verbatim>\<open>pgconn.PgError\<close> the
  constraint name).
\<close>

lemma PostgresRepository_Create_classification:
  assumes "db_Create db (ToEntity user) s = (Some r, s')"
  shows
    "(extractPgError (Some r) = Some \<lparr>Code = ''23505'', Constraint = ''users_pkey''\<rparr> \<longrightarrow>
        PostgresRepository_Create db user s = (Some (Sentinel ErrIdInUse), s'))
   \<and> (extractPgError (Some r) = Some \<lparr>Code = ''23505'', Constraint = ''idx_username''\<rparr> \<longrightarrow>
        PostgresRepository_Create db user s = (Some (Sentinel ErrUsernameInUse), s'))
   \<and> (extractPgError (Some r) = Some \<lparr>Code = ''23505'', Constraint = ''idx_email''\<rparr> \<longrightarrow>
        PostgresRepository_Create db user s = (Some (Sentinel ErrEmailInUse), s'))
   \<and> (\<forall>c. extractPgError (Some r) = Some \<lparr>Code = ''23502'', Constraint = c\<rparr> \<longrightarrow>
        PostgresRepository_Create db user s =
          (Some (ErrValueNotNullable
                   (if c = ''id'' \<or> c = ''username'' \<or> c = ''email'' then c else ''a column'')), s'))
   \<and> (\<forall>d. extractPgError (Some r) = Some d
          \<and> \<not> (Code d = ''23505'' \<and>
                (Constraint d = ''users_pkey'' \<or> Constraint d = ''idx_username''
                   \<or> Constraint d = ''idx_email''))
          \<and> Code d \<noteq> ''23502'' \<longrightarrow>
        PostgresRepository_Create db user s = (Some (ErrInternalServer (Error r)), s'))
   \<and> (extractPgError (Some r) = None \<longrightarrow>
        PostgresRepository_Create db user s = (Some (ErrInternalServer (Error r)), s'))"
  unfolding PostgresRepository_Create_unfold [OF assms]
  by (auto split: option.splits)

text \<open>
  Claim C5 says, among the rest of the classification, that a not-null violation (code
  23502) is mapped to \<open>ErrValueNotNullable\<close> carrying the offending column when that column
  is \<open>id\<close>, \<open>username\<close> or \<open>email\<close>. The code names its variable \<open>column\<close> and lists these
  three column names, but what it compares is the constraint identifier: the column
  field of neither driver error is read. A not-null violation names its column and no
  constraint, so the violation on \<open>username\<close> is reported as \<open>a column\<close>, in both driver
  shapes.
\<close>

theorem not_null_column_is_not_read:
  "extractPgError (Some (pgconn_not_null ''username''))
     = Some \<lparr>Code = ''23502'', Constraint = []\<rparr>
   \<and> PostgresRepository_Create (failing_DB (pgconn_not_null ''username'')) (Some jane) ()
     = (Some (ErrValueNotNullable ''a column''), ())
   \<and> extractPgError (Some (pq_not_null ''username''))
     = Some \<lparr>Code = ''23502'', Constraint = ''user_entities''\<rparr>
   \<and> PostgresRepository_Create (failing_DB (pq_not_null ''username'')) (Some jane) ()
     = (Some (ErrValueNotNullable ''a column''), ())"
  by (simp add: pgconn_not_null_def pq_not_null_def extractPgError_def failing_DB_def
      PostgresRepository_Create_def)

subsection \<open>The error kinds Create can return\<close>

text \<open>
  Claim C9. For every store, user and state, \<open>Create\<close> returns nil or one of
  \<open>ErrIdInUse\<close>, \<open>ErrUsernameInUse\<close>, \<open>ErrEmailInUse\<close>, an \<open>ErrValueNotNullable\<close>, an
  \<open>ErrInternalServer\<close>. The error never identifies as \<open>ErrUserNotFound\<close> and is never an
  \<open>ErrTransactionFailed\<close>; a record-not-found answer of the store during \<open>Create\<close>
  comes out as \<open>ErrInternalServer\<close> with the raw message.
\<close>

theorem Create_error_kinds:
  "(\<exists>v. fst (PostgresRepository_Create db user s) \<in>
          {None, Some (Sentinel ErrIdInUse), Some (Sentinel ErrUsernameInUse),
           Some (Sentinel ErrEmailInUse), Some (ErrValueNotNullable v),
           Some (ErrInternalServer v)})
   \<and> (\<forall>e. fst (PostgresRepository_Create db user s) = Some e \<longrightarrow>
          \<not> errors_Is e ErrUserNotFound \<and> (\<forall>v. e \<noteq> ErrTransactionFailed v))
   \<and> (\<forall>r s'. db_Create db (ToEntity user) s = (Some r, s') \<and> errors_Is r gorm_ErrRecordNotFound \<longrightarrow>
          PostgresRepository_Create db user s = (Some (ErrInternalServer (Error r)), s'))"
proof -
  obtain result s' where h: "db_Create db (ToEntity user) s = (result, s')"
    by (cases "db_Create db (ToEntity user) s")
  show ?thesis
    unfolding PostgresRepository_Create_unfold [OF h]
    using h by (auto split: option.splits simp: extractPgError_of_sentinel)
qed

theorem Create_error_kinds_witness:
  "db_Create (failing_DB (Sentinel gorm_ErrRecordNotFound)) (ToEntity None) ()
     = (Some (Sentinel gorm_ErrRecordNotFound), ())
   \<and> errors_Is (Sentinel gorm_ErrRecordNotFound) gorm_ErrRecordNotFound
   \<and> PostgresRepository_Create (failing_DB (Sentinel gorm_ErrRecordNotFound)) None ()
     = (Some (ErrInternalServer ''record not found''), ())
   \<and> \<not> errors_Is (ErrInternalServer ''record not found'') ErrUserNotFound"
proof -
  have h: "db_Create (failing_DB (Sentinel gorm_ErrRecordNotFound)) (ToEntity None) ()
     = (Some (Sentinel gorm_ErrRecordNotFound), ())"
    by (simp add: failing_DB_def)
  from h Create_error_kinds [of "failing_DB (Sentinel gorm_ErrRecordNotFound)" None "()"]
  show ?thesis by simp
qed

subsection \<open>A unique violation on an unknown constraint\<close>

text \<open>
  The switch on the constraint name has no default case. For a 23505 error whose
  constraint identifier is none of \<open>users_pkey\<close>, \<open>idx_username\<close>, \<open>idx_email\<close>, control falls
  through to the last return.
\<close>

lemma unique_violation_on_other_constraint:
  assumes "extractPgError (Some r) = Some \<lparr>Code = ''23505'', Constraint = c\<rparr>"
    and "c \<noteq> ''users_pkey''" and "c \<noteq> ''idx_username''" and "c \<noteq> ''idx_email''"
  shows
    "(db_Create db (ToEntity user) s = (Some r, s') \<longrightarrow>
        PostgresRepository_Create db user s = (Some (ErrInternalServer (Error r)), s'))
   \<and> (db_Updates db (ToEntity user) s = ((Some r, n), s') \<longrightarrow>
        PostgresRepository_Update db user s = (Some (ErrInternalServer (Error r)), s'))
   \<and> \<not> is_conflict (ErrInternalServer (Error r))"
proof -
  have nf: "\<not> errors_Is r gorm_ErrRecordNotFound"
    using assms(1) extractPgError_of_sentinel by fastforce
  show ?thesis
    using assms nf
    by (auto simp: PostgresRepository_Create_unfold PostgresRepository_Update_unfold is_conflict_def)
qed

text \<open>
  Claim C3 says that such an error is still classified as one of the conflict kinds.
  The table gorm creates for \<^verbatim>\<open>UserEntity\<close> is \<open>user_entities\<close> and its primary key is the
  constraint \<open>user_entities_pkey\<close>, a name the switch does not list: \<open>users_pkey\<close> never
  occurs. Inserting a user whose id is already in the table is therefore reported as
  \<open>ErrInternalServer\<close>, which is no conflict kind, where \<open>ErrIdInUse\<close> is meant.
\<close>

theorem duplicate_id_is_not_a_conflict:
  "db_Create mem_DB (ToEntity (Some jane)) \<lparr>rows = [ToEntity (Some jane)], saved = None\<rparr>
     = (Some (unique_violation ''user_entities_pkey''),
        \<lparr>rows = [ToEntity (Some jane)], saved = None\<rparr>)
   \<and> extractPgError (Some (unique_violation ''user_entities_pkey''))
     = Some \<lparr>Code = ''23505'', Constraint = ''user_entities_pkey''\<rparr>
   \<and> PostgresRepository_Create mem_DB (Some jane)
       \<lparr>rows = [ToEntity (Some jane)], saved = None\<rparr>
     = (Some (ErrInternalServer
          ''ERROR: duplicate key value violates unique constraint (SQLSTATE 23505)''),
        \<lparr>rows = [ToEntity (Some jane)], saved = None\<rparr>)
   \<and> \<not> is_conflict (ErrInternalServer
          ''ERROR: duplicate key value violates unique constraint (SQLSTATE 23505)'')"
  by (simp add: mem_DB_def mem_Create_def unique_violation_def extractPgError_def
      PostgresRepository_Create_def is_conflict_def)

section \<open>Properties of the transaction port\<close>

text \<open>\<open>Execute\<close> with gorm's transaction and the captured error spelled out.\<close>

lemma Execute_unfold:
  "Execute db fn l s =
     (case db_Begin db s of
        (Some beginErr, s1) \<Rightarrow> (Some (ErrTransactionFailed (Error beginErr)), l, s1)
      | (None, s1) \<Rightarrow>
          (case fn (NewPostgresRepository db) l s1 of
             (Some err, l', s2) \<Rightarrow> (Some err, l', db_Rollback db s2)
           | (None, l', s2) \<Rightarrow>
               (case db_Commit db s2 of
                  (Some commitErr, s3) \<Rightarrow>
                    (Some (ErrTransactionFailed (Error commitErr)), l', db_Rollback db s3)
                | (None, s3) \<Rightarrow> (None, l', s3))))"
  by (simp add: Execute_def gorm_Transaction_def Let_def split: prod.splits option.splits)

lemma Create_jane_empty:
  "PostgresRepository_Create mem_DB (Some jane) \<lparr>rows = [], saved = x\<rparr>
     = (None, \<lparr>rows = [ToEntity (Some jane)], saved = x\<rparr>)"
  by (simp add: PostgresRepository_Create_def mem_DB_def mem_Create_def)

text \<open>
  Claim C2. For every unit of work \<open>fn\<close> run by \<open>Execute\<close> inside a transaction that has
  begun: if \<open>fn\<close> returns an error, the store is rolled back and \<open>Execute\<close> returns that
  very error; if \<open>fn\<close> returns nil and the commit succeeds, \<open>Execute\<close> returns nil; if
  \<open>fn\<close> returns nil and the commit fails, \<open>Execute\<close> returns an \<open>ErrTransactionFailed\<close>
  carrying the store's message. The same \<open>ErrTransactionFailed\<close> comes back when the
  transaction cannot begin, in which case \<open>fn\<close> is not run.
\<close>

theorem Execute_contract:
  "(\<forall>s1 e l' s2. db_Begin db s = (None, s1)
          \<and> fn (NewPostgresRepository db) l s1 = (Some e, l', s2) \<longrightarrow>
        Execute db fn l s = (Some e, l', db_Rollback db s2))
   \<and> (\<forall>s1 l' s2 s3. db_Begin db s = (None, s1)
          \<and> fn (NewPostgresRepository db) l s1 = (None, l', s2)
          \<and> db_Commit db s2 = (None, s3) \<longrightarrow>
        Execute db fn l s = (None, l', s3))
   \<and> (\<forall>s1 l' s2 ce s3. db_Begin db s = (None, s1)
          \<and> fn (NewPostgresRepository db) l s1 = (None, l', s2)
          \<and> db_Commit db s2 = (Some ce, s3) \<longrightarrow>
        Execute db fn l s = (Some (ErrTransactionFailed (Error ce)), l', db_Rollback db s3))
   \<and> (\<forall>be s1. db_Begin db s = (Some be, s1) \<longrightarrow>
        Execute db fn l s = (Some (ErrTransactionFailed (Error be)), l, s1))"
  by (simp add: Execute_unfold)

text \<open>
  On the in-memory store: an insert followed by an error leaves the table as it was; an
  insert alone is committed. On a store whose commit fails, a unit of work that does
  nothing ends with \<open>ErrTransactionFailed\<close>.
\<close>

theorem Execute_contract_witness:
  "Execute mem_DB create_then_fail () \<lparr>rows = [], saved = None\<rparr>
     = (Some (Sentinel ErrUserNotFound), (), \<lparr>rows = [], saved = None\<rparr>)
   \<and> Execute mem_DB create_only () \<lparr>rows = [], saved = None\<rparr>
     = (None, (), \<lparr>rows = [ToEntity (Some jane)], saved = None\<rparr>)
   \<and> Execute (failing_DB (ErrorString ''connection reset'')) (\<lambda>repo l st. (None, l, st)) () ()
     = (Some (ErrTransactionFailed ''connection reset''), (), ())"
proof -
  let ?s = "\<lparr>rows = [], saved = None\<rparr>"
  let ?s1 = "\<lparr>rows = [], saved = Some []\<rparr>"
  let ?s2 = "\<lparr>rows = [ToEntity (Some jane)], saved = Some []\<rparr>"
  let ?f = "failing_DB (ErrorString ''connection reset'')"
  have b: "db_Begin mem_DB ?s = (None, ?s1)"
    by (simp add: mem_DB_def mem_Begin_def)
  have f1: "create_then_fail (NewPostgresRepository mem_DB) () ?s1
              = (Some (Sentinel ErrUserNotFound), (), ?s2)"
    by (simp add: create_then_fail_def NewPostgresRepository_def Create_jane_empty)
  have f2: "create_only (NewPostgresRepository mem_DB) () ?s1 = (None, (), ?s2)"
    by (simp add: create_only_def NewPostgresRepository_def Create_jane_empty)
  have r: "db_Rollback mem_DB ?s2 = ?s"
    by (simp add: mem_DB_def mem_Rollback_def)
  have c: "db_Commit mem_DB ?s2 = (None, \<lparr>rows = [ToEntity (Some jane)], saved = None\<rparr>)"
    by (simp add: mem_DB_def mem_Commit_def)
  have fb: "db_Begin ?f () = (None, ())" and fc: "db_Commit ?f () = (Some (ErrorString ''connection reset''), ())"
    by (simp_all add: failing_DB_def)
  from b f1 r Execute_contract [of mem_DB ?s create_then_fail "()"]
  have 1: "Execute mem_DB create_then_fail () ?s = (Some (Sentinel ErrUserNotFound), (), ?s)"
    by simp
  from b f2 c Execute_contract [of mem_DB ?s create_only "()"]
  have 2: "Execute mem_DB create_only () ?s
             = (None, (), \<lparr>rows = [ToEntity (Some jane)], saved = None\<rparr>)"
    by simp
  from fb fc Execute_contract [of ?f "()" "\<lambda>repo l st. (None, l, st)" "()"]
  have 3: "Execute ?f (\<lambda>repo l st. (None, l, st)) () ()
             = (Some (ErrTransactionFailed ''connection reset''), (), ())"
    by simp
  from 1 2 3 show ?thesis by simp
qed

section \<open>Properties of the orchestrator\<close>

subsection \<open>Auxiliary facts\<close>

lemma PostgresRepository_Create_None:
  "PostgresRepository_Create db user s = (None, s') \<longleftrightarrow> db_Create db (ToEntity user) s = (None, s')"
proof (cases "db_Create db (ToEntity user) s")
  case (Pair result s1)
  show ?thesis
    unfolding PostgresRepository_Create_unfold [OF Pair] Pair
    by (auto split: option.splits)
qed

lemma PostgresRepository_Create_cases:
  obtains s' where "PostgresRepository_Create db user s = (None, s')"
      and "db_Create db (ToEntity user) s = (None, s')"
  | e s' where "PostgresRepository_Create db user s = (Some e, s')"
proof (cases "PostgresRepository_Create db user s")
  case (Pair r s')
  then show ?thesis
    using that PostgresRepository_Create_None [of db user s s'] by (cases r) auto
qed

lemma length_base32: "length (base32 n v) = n"
  by (induction n arbitrary: v) auto

lemma length_new_ULID: "length (new_ULID rand_bytes t) = 26"
  by (simp add: new_ULID_def ulid_String_def length_base32)

lemma new_ULID_neq: "length x \<noteq> 26 \<Longrightarrow> new_ULID rand_bytes t \<noteq> x"
  using length_new_ULID by blast

text \<open>What \<open>Create\<close> does inside \<open>Execute\<close>, for any store: on success the user built
  from the request is returned, after begin, one insert of that user and commit; on
  failure the error is \<open>mapRepositoryError\<close> of the cause, which is the error of the
  repository's \<open>Create\<close>, or the transaction failure when begin or commit fails.\<close>

lemma UserServiceImpl_Create_outcome:
  "(\<forall>created s'. UserServiceImpl_Create (Execute db) rand_bytes req t s = (Inr created, s') \<longrightarrow>
       created = Some \<lparr>ID = new_ULID rand_bytes t, Name = req_Name req,
                       Username = req_Username req, Email = req_Email req\<rparr>
       \<and> (\<exists>s1 s2. db_Begin db s = (None, s1)
              \<and> db_Create db (ToEntity created) s1 = (None, s2)
              \<and> db_Commit db s2 = (None, s')))
   \<and> (\<forall>e s'. UserServiceImpl_Create (Execute db) rand_bytes req t s = (Inl e, s') \<longrightarrow>
       (\<exists>beginErr. db_Begin db s = (Some beginErr, s')
            \<and> e = mapRepositoryError (ErrTransactionFailed (Error beginErr)))
       \<or> (\<exists>s1 cause s2. db_Begin db s = (None, s1)
            \<and> PostgresRepository_Create db
                 (Some \<lparr>ID = new_ULID rand_bytes t, Name = req_Name req,
                         Username = req_Username req, Email = req_Email req\<rparr>) s1
                 = (Some cause, s2)
            \<and> s' = db_Rollback db s2
            \<and> e = mapRepositoryError cause)
       \<or> (\<exists>s1 s2 commitErr s3. db_Begin db s = (None, s1)
            \<and> db_Create db
                 (ToEntity (Some \<lparr>ID = new_ULID rand_bytes t, Name = req_Name req,
                                   Username = req_Username req, Email = req_Email req\<rparr>)) s1
                 = (None, s2)
            \<and> db_Commit db s2 = (Some commitErr, s3)
            \<and> s' = db_Rollback db s3
            \<and> e = mapRepositoryError (ErrTransactionFailed (Error commitErr))))"
proof -
  let ?u = "\<lparr>ID = new_ULID rand_bytes t, Name = req_Name req,
             Username = req_Username req, Email = req_Email req\<rparr>"
  obtain b s1 where B: "db_Begin db s = (b, s1)" by (cases "db_Begin db s")
  show ?thesis
  proof (cases b)
    case (Some be)
    with B show ?thesis
      by (auto simp: UserServiceImpl_Create_def Execute_unfold)
  next
    case None
    show ?thesis
    proof (cases db "Some ?u" s1 rule: PostgresRepository_Create_cases)
      case (1 s2)
      obtain c s3 where C: "db_Commit db s2 = (c, s3)" by (cases "db_Commit db s2")
      from B None 1 C show ?thesis
        by (cases c) (auto simp: UserServiceImpl_Create_def Execute_unfold NewPostgresRepository_def)
    next
      case (2 e s2)
      with B None show ?thesis
        by (auto simp: UserServiceImpl_Create_def Execute_unfold NewPostgresRepository_def)
    qed
  qed
qed

text \<open>The spec's scenario on the in-memory store.\<close>

lemma Create_jane_request_empty:
  "UserServiceImpl_Create (Execute mem_DB) rb jane_request t \<lparr>rows = [], saved = None\<rparr>
     = (Inr (Some \<lparr>ID = new_ULID rb t, Name = ''Jane Doe'', Username = ''janedoe123'',
                   Email = ''jane.doe@example.com''\<rparr>),
        \<lparr>rows = [\<lparr>e_ID = new_ULID rb t, e_Name = ''Jane Doe'', e_Username = ''janedoe123'',
                   e_Email = ''jane.doe@example.com''\<rparr>], saved = None\<rparr>)"
  by (simp add: UserServiceImpl_Create_def Execute_unfold mem_DB_def mem_Begin_def
      mem_Commit_def NewPostgresRepository_def PostgresRepository_Create_def mem_Create_def
      ToEntity_def jane_request_def)

lemma Create_same_username:
  "UserServiceImpl_Create (Execute mem_DB) rb same_username_request t
       \<lparr>rows = [ToEntity (Some jane)], saved = None\<rparr>
     = (Inl (ErrorString ''username already in use''),
        \<lparr>rows = [ToEntity (Some jane)], saved = None\<rparr>)"
  by (simp add: UserServiceImpl_Create_def Execute_unfold mem_DB_def mem_Begin_def
      mem_Rollback_def NewPostgresRepository_def PostgresRepository_Create_def mem_Create_def
      ToEntity_def same_username_request_def jane_def new_ULID_neq unique_violation_def
      extractPgError_def mapRepositoryError_def fmt_Errorf_def)

lemma find_appended_row:
  "k \<notin> set (map e_ID rs) \<Longrightarrow> e_ID e = k \<Longrightarrow> find (\<lambda>r. e_ID r = k) (rs @ [e]) = Some e"
  by (induction rs) auto

lemma FromEntity_ToEntity: "FromEntity (ToEntity (Some u)) = u"
  by (simp add: FromEntity_def ToEntity_def)

lemma mem_Create_None:
  "mem_Create e s = (None, s') \<Longrightarrow> e_ID e \<notin> set (map e_ID (rows s)) \<and> s' = s\<lparr>rows := rows s @ [e]\<rparr>"
  by (auto simp: mem_Create_def split: if_splits)

lemma PostgresRepository_Update_reads:
  "PostgresRepository_Update (db\<lparr>db_First := f, db_Find := g\<rparr>) = PostgresRepository_Update db"
  by (rule ext)+ (simp add: PostgresRepository_Update_def)

lemma Update_repo_reads:
  "Update (NewPostgresRepository (db\<lparr>db_First := f, db_Find := g\<rparr>))
     = Update (NewPostgresRepository db)"
  by (simp add: NewPostgresRepository_def PostgresRepository_Update_reads)

lemma Update_rename_jane:
  "UserServiceImpl_Update (Execute mem_DB) (Some rename_jane)
       \<lparr>rows = [ToEntity (Some jane)], saved = None\<rparr>
     = (Inr (Some rename_jane),
        \<lparr>rows = [\<lparr>e_ID = ''01'', e_Name = ''Jane Doe'', e_Username = ''jdoe'',
                   e_Email = ''jane.doe@example.com''\<rparr>], saved = None\<rparr>)"
  by (simp add: UserServiceImpl_Update_def Execute_unfold NewPostgresRepository_def
      PostgresRepository_Update_def mem_DB_def mem_Begin_def mem_Commit_def mem_Updates_def
      ToEntity_def jane_def rename_jane_def)

subsection \<open>Error mapping\<close>

text \<open>
  Claim C1 says that the error returned by \<open>mapRepositoryError\<close> still identifies as
  the domain kind it was given. It does so for \<open>ErrIdInUse\<close>, which is wrapped. For
  \<open>ErrUserNotFound\<close>, \<open>ErrUsernameInUse\<close>, \<open>ErrEmailInUse\<close> and \<open>ErrValueNotNullable\<close> the
  function returns a fresh error with the same text: \<^verbatim>\<open>errors.Is\<close> and \<^verbatim>\<open>errors.As\<close> no
  longer match it, and the boundary, which tests exactly that, answers 500 where it
  means to answer 404 or 409. Looking up a user that is absent is such a call.
\<close>

theorem mapRepositoryError_loses_kind:
  "UserServiceImpl_FindById (NewPostgresRepository mem_DB) ''01'' \<lparr>rows = [], saved = None\<rparr>
     = (Inl (mapRepositoryError (Sentinel ErrUserNotFound)), \<lparr>rows = [], saved = None\<rparr>)
   \<and> mapRepositoryError (Sentinel ErrUserNotFound) = ErrorString ''user not found''
   \<and> \<not> errors_Is (mapRepositoryError (Sentinel ErrUserNotFound)) ErrUserNotFound
   \<and> FindById_error_status (mapRepositoryError (Sentinel ErrUserNotFound)) = 500
   \<and> Update_error_status (mapRepositoryError (Sentinel ErrUserNotFound)) = 500
   \<and> \<not> errors_Is (mapRepositoryError (Sentinel ErrUsernameInUse)) ErrUsernameInUse
   \<and> \<not> errors_Is (mapRepositoryError (Sentinel ErrEmailInUse)) ErrEmailInUse
   \<and> Update_error_status (mapRepositoryError (Sentinel ErrUsernameInUse)) = 500
   \<and> Update_error_status (mapRepositoryError (Sentinel ErrEmailInUse)) = 500
   \<and> errors_As_ErrValueNotNullable (mapRepositoryError (ErrValueNotNullable ''username'')) = None
   \<and> errors_Is (mapRepositoryError (Sentinel ErrIdInUse)) ErrIdInUse"
  by (simp add: mapRepositoryError_def fmt_Errorf_def fmt_Errorf_w_def FindById_error_status_def
      Update_error_status_def UserServiceImpl_FindById_def NewPostgresRepository_def
      PostgresRepository_FindById_def mem_DB_def mem_First_def)

subsection \<open>Create\<close>

text \<open>
  Claim C6. For every create request, clock reading, store and state: when the
  orchestrator's \<open>Create\<close>, run through \<open>Execute\<close>, succeeds, it returns the user with
  the request's name, username and email and the identifier generated from the clock
  reading, and the store has seen one transaction: begin, the insert of exactly that user,
  commit. When it fails it returns no user, and the error is \<open>mapRepositoryError\<close>
  applied to the cause of the failure: the error the repository's \<open>Create\<close> returned for
  that user, after which the transaction is rolled back, or \<open>ErrTransactionFailed\<close> with
  the store's message when the transaction cannot begin or cannot commit.
\<close>

theorem Create_returns_generated_user:
  "(\<forall>created s'. UserServiceImpl_Create (Execute db) rand_bytes req t s = (Inr created, s') \<longrightarrow>
       created = Some \<lparr>ID = new_ULID rand_bytes t, Name = req_Name req,
                       Username = req_Username req, Email = req_Email req\<rparr>
       \<and> (\<exists>s1 s2. db_Begin db s = (None, s1)
              \<and> db_Create db (ToEntity created) s1 = (None, s2)
              \<and> db_Commit db s2 = (None, s')))
   \<and> (\<forall>e s'. UserServiceImpl_Create (Execute db) rand_bytes req t s = (Inl e, s') \<longrightarrow>
       (\<exists>beginErr. db_Begin db s = (Some beginErr, s')
            \<and> e = mapRepositoryError (ErrTransactionFailed (Error beginErr)))
       \<or> (\<exists>s1 cause s2. db_Begin db s = (None, s1)
            \<and> PostgresRepository_Create db
                 (Some \<lparr>ID = new_ULID rand_bytes t, Name = req_Name req,
                         Username = req_Username req, Email = req_Email req\<rparr>) s1
                 = (Some cause, s2)
            \<and> s' = db_Rollback db s2
            \<and> e = mapRepositoryError cause)
       \<or> (\<exists>s1 s2 commitErr s3. db_Begin db s = (None, s1)
            \<and> db_Create db
                 (ToEntity (Some \<lparr>ID = new_ULID rand_bytes t, Name = req_Name req,
                                   Username = req_Username req, Email = req_Email req\<rparr>)) s1
                 = (None, s2)
            \<and> db_Commit db s2 = (Some commitErr, s3)
            \<and> s' = db_Rollback db s3
            \<and> e = mapRepositoryError (ErrTransactionFailed (Error commitErr))))"
  by (rule UserServiceImpl_Create_outcome)

text \<open>Creating Jane Doe on the empty table succeeds. Creating a second user with her
  username fails with the mapped conflict, and on a store that has lost its connection
  the same request fails with the wrapped internal error.\<close>

lemma Create_connection_lost:
  "UserServiceImpl_Create (Execute (failing_DB (ErrorString ''connection reset''))) rb
       jane_request t ()
     = (Inl (WrapError ''internal service error: internal server error: connection reset''
              (ErrInternalServer ''connection reset'')), ())"
  by (simp add: UserServiceImpl_Create_def Execute_unfold failing_DB_def
      NewPostgresRepository_def PostgresRepository_Create_def extractPgError_def
      mapRepositoryError_def fmt_Errorf_w_def)

theorem Create_returns_generated_user_witness:
  "UserServiceImpl_Create (Execute mem_DB) (\<lambda>seed. 0) jane_request 1700000000000000000
       \<lparr>rows = [], saved = None\<rparr>
     = (Inr (Some \<lparr>ID = new_ULID (\<lambda>seed. 0) 1700000000000000000, Name = ''Jane Doe'',
                   Username = ''janedoe123'', Email = ''jane.doe@example.com''\<rparr>),
        \<lparr>rows = [\<lparr>e_ID = new_ULID (\<lambda>seed. 0) 1700000000000000000, e_Name = ''Jane Doe'',
                   e_Username = ''janedoe123'', e_Email = ''jane.doe@example.com''\<rparr>],
         saved = None\<rparr>)
   \<and> UserServiceImpl_Create (Execute mem_DB) (\<lambda>seed. 0) same_username_request
       1700000000000000000 \<lparr>rows = [ToEntity (Some jane)], saved = None\<rparr>
     = (Inl (ErrorString ''username already in use''),
        \<lparr>rows = [ToEntity (Some jane)], saved = None\<rparr>)
   \<and> ErrorString ''username already in use'' = mapRepositoryError (Sentinel ErrUsernameInUse)
   \<and> UserServiceImpl_Create (Execute (failing_DB (ErrorString ''connection reset'')))
       (\<lambda>seed. 0) jane_request 1700000000000000000 ()
     = (Inl (WrapError ''internal service error: internal server error: connection reset''
              (ErrInternalServer ''connection reset'')), ())
   \<and> WrapError ''internal service error: internal server error: connection reset''
         (ErrInternalServer ''connection reset'')
     = mapRepositoryError (ErrInternalServer ''connection reset'')"
proof -
  have m: "ErrorString ''username already in use'' = mapRepositoryError (Sentinel ErrUsernameInUse)"
    "WrapError ''internal service error: internal server error: connection reset''
         (ErrInternalServer ''connection reset'')
     = mapRepositoryError (ErrInternalServer ''connection reset'')"
    by (simp_all add: mapRepositoryError_def fmt_Errorf_def fmt_Errorf_w_def)
  from m Create_jane_request_empty [of "\<lambda>seed. 0" 1700000000000000000]
    Create_same_username [of "\<lambda>seed. 0" 1700000000000000000]
    Create_connection_lost [of "\<lambda>seed. 0" 1700000000000000000]
    Create_returns_generated_user [of mem_DB "\<lambda>seed. 0" jane_request
      1700000000000000000 "\<lparr>rows = [], saved = None\<rparr>"]
    Create_returns_generated_user [of mem_DB "\<lambda>seed. 0" same_username_request
      1700000000000000000 "\<lparr>rows = [ToEntity (Some jane)], saved = None\<rparr>"]
    Create_returns_generated_user [of "failing_DB (ErrorString ''connection reset'')"
      "\<lambda>seed. 0" jane_request 1700000000000000000 "()"]
  show ?thesis by simp
qed

subsection \<open>Create, then find\<close>

text \<open>
  Claim C7. On the relational table of the spec, whenever the orchestrator's \<open>Create\<close>
  succeeds and returns user \<open>u\<close>, \<open>FindById\<close> with \<open>u\<close>'s identifier in the resulting
  state succeeds and returns \<open>u\<close>: the same id, name, username and email.
\<close>

theorem Create_then_FindById:
  "UserServiceImpl_Create (Execute mem_DB) rand_bytes req t s = (Inr (Some u), s') \<longrightarrow>
   UserServiceImpl_FindById (NewPostgresRepository mem_DB) (ID u) s' = (Inr u, s')"
proof
  assume h: "UserServiceImpl_Create (Execute mem_DB) rand_bytes req t s = (Inr (Some u), s')"
  from h UserServiceImpl_Create_outcome [of mem_DB rand_bytes req t s]
  obtain s1 s2 where b: "db_Begin mem_DB s = (None, s1)"
    and c: "db_Create mem_DB (ToEntity (Some u)) s1 = (None, s2)"
    and m: "db_Commit mem_DB s2 = (None, s')"
    by blast
  from c have c': "mem_Create (ToEntity (Some u)) s1 = (None, s2)"
    by (simp add: mem_DB_def)
  from mem_Create_None [OF c']
  have fresh: "ID u \<notin> set (map e_ID (rows s1))" and s2: "rows s2 = rows s1 @ [ToEntity (Some u)]"
    by (simp_all add: ToEntity_def)
  from m have "rows s' = rows s2"
    by (auto simp: mem_DB_def mem_Commit_def)
  with s2 have r: "rows s' = rows s1 @ [ToEntity (Some u)]" by simp
  have "find (\<lambda>r. e_ID r = ID u) (rows s') = Some (ToEntity (Some u))"
    unfolding r by (rule find_appended_row [OF fresh]) (simp add: ToEntity_def)
  then show "UserServiceImpl_FindById (NewPostgresRepository mem_DB) (ID u) s' = (Inr u, s')"
    by (simp add: UserServiceImpl_FindById_def NewPostgresRepository_def
        PostgresRepository_FindById_def mem_DB_def mem_First_def FromEntity_ToEntity)
qed

theorem Create_then_FindById_witness:
  "UserServiceImpl_Create (Execute mem_DB) (\<lambda>seed. 0) jane_request 1700000000000000000
       \<lparr>rows = [], saved = None\<rparr>
     = (Inr (Some \<lparr>ID = new_ULID (\<lambda>seed. 0) 1700000000000000000, Name = ''Jane Doe'',
                   Username = ''janedoe123'', Email = ''jane.doe@example.com''\<rparr>),
        \<lparr>rows = [\<lparr>e_ID = new_ULID (\<lambda>seed. 0) 1700000000000000000, e_Name = ''Jane Doe'',
                   e_Username = ''janedoe123'', e_Email = ''jane.doe@example.com''\<rparr>],
         saved = None\<rparr>)
   \<and> UserServiceImpl_FindById (NewPostgresRepository mem_DB)
       (new_ULID (\<lambda>seed. 0) 1700000000000000000)
       \<lparr>rows = [\<lparr>e_ID = new_ULID (\<lambda>seed. 0) 1700000000000000000, e_Name = ''Jane Doe'',
                   e_Username = ''janedoe123'', e_Email = ''jane.doe@example.com''\<rparr>],
         saved = None\<rparr>
     = (Inr \<lparr>ID = new_ULID (\<lambda>seed. 0) 1700000000000000000, Name = ''Jane Doe'',
             Username = ''janedoe123'', Email = ''jane.doe@example.com''\<rparr>,
        \<lparr>rows = [\<lparr>e_ID = new_ULID (\<lambda>seed. 0) 1700000000000000000, e_Name = ''Jane Doe'',
                   e_Username = ''janedoe123'', e_Email = ''jane.doe@example.com''\<rparr>],
         saved = None\<rparr>)"
proof -
  note h = Create_jane_request_empty [of "\<lambda>seed. 0" 1700000000000000000]
  from h Create_then_FindById [THEN mp, OF h]
  show ?thesis by simp
qed

subsection \<open>Update\<close>

text \<open>
  Claim C10. A successful \<open>Update\<close> of the orchestrator returns the very user it was
  given, whatever the transaction port; and its outcome through \<open>Execute\<close> does not depend
  on what the store's read calls \<open>First\<close> and \<open>Find\<close> would answer, so the record is
  not read back.
\<close>

theorem Update_returns_its_argument:
  "(\<forall>u' s'. UserServiceImpl_Update txPort user s = (Inr u', s') \<longrightarrow> u' = user)
   \<and> UserServiceImpl_Update (Execute (db\<lparr>db_First := f, db_Find := g\<rparr>)) user s
       = UserServiceImpl_Update (Execute db) user s"
proof
  show "\<forall>u' s'. UserServiceImpl_Update txPort user s = (Inr u', s') \<longrightarrow> u' = user"
    by (auto simp: UserServiceImpl_Update_def split: prod.splits option.splits)
  show "UserServiceImpl_Update (Execute (db\<lparr>db_First := f, db_Find := g\<rparr>)) user s
       = UserServiceImpl_Update (Execute db) user s"
    by (simp add: UserServiceImpl_Update_def Execute_unfold Update_repo_reads
        split: prod.splits option.splits)
qed

text \<open>Renaming Jane: the returned user has the empty name and email of the request,
  while the stored row, as \<open>FindById\<close> reads it, keeps the old ones.\<close>

theorem Update_returns_its_argument_witness:
  "UserServiceImpl_Update (Execute mem_DB) (Some rename_jane)
       \<lparr>rows = [ToEntity (Some jane)], saved = None\<rparr>
     = (Inr (Some rename_jane),
        \<lparr>rows = [\<lparr>e_ID = ''01'', e_Name = ''Jane Doe'', e_Username = ''jdoe'',
                   e_Email = ''jane.doe@example.com''\<rparr>], saved = None\<rparr>)
   \<and> UserServiceImpl_FindById (NewPostgresRepository mem_DB) ''01''
       \<lparr>rows = [\<lparr>e_ID = ''01'', e_Name = ''Jane Doe'', e_Username = ''jdoe'',
                   e_Email = ''jane.doe@example.com''\<rparr>], saved = None\<rparr>
     = (Inr \<lparr>ID = ''01'', Name = ''Jane Doe'', Username = ''jdoe'',
             Email = ''jane.doe@example.com''\<rparr>,
        \<lparr>rows = [\<lparr>e_ID = ''01'', e_Name = ''Jane Doe'', e_Username = ''jdoe'',
                   e_Email = ''jane.doe@example.com''\<rparr>], saved = None\<rparr>)
   \<and> rename_jane \<noteq> \<lparr>ID = ''01'', Name = ''Jane Doe'', Username = ''jdoe'',
             Email = ''jane.doe@example.com''\<rparr>"
proof -
  have r: "UserServiceImpl_FindById (NewPostgresRepository mem_DB) ''01''
       \<lparr>rows = [\<lparr>e_ID = ''01'', e_Name = ''Jane Doe'', e_Username = ''jdoe'',
                   e_Email = ''jane.doe@example.com''\<rparr>], saved = None\<rparr>
     = (Inr \<lparr>ID = ''01'', Name = ''Jane Doe'', Username = ''jdoe'',
             Email = ''jane.doe@example.com''\<rparr>,
        \<lparr>rows = [\<lparr>e_ID = ''01'', e_Name = ''Jane Doe'', e_Username = ''jdoe'',
                   e_Email = ''jane.doe@example.com''\<rparr>], saved = None\<rparr>)"
    by (simp add: UserServiceImpl_FindById_def NewPostgresRepository_def
        PostgresRepository_FindById_def mem_DB_def mem_First_def FromEntity_def)
  have n: "rename_jane \<noteq> \<lparr>ID = ''01'', Name = ''Jane Doe'', Username = ''jdoe'',
             Email = ''jane.doe@example.com''\<rparr>"
    by (simp add: rename_jane_def)
  from Update_rename_jane r n
    Update_returns_its_argument [of "Execute mem_DB" "Some rename_jane"
      "\<lparr>rows = [ToEntity (Some jane)], saved = None\<rparr>"]
  show ?thesis by simp
qed

section \<open>Properties of the generated identifiers\<close>

subsection \<open>The text form of a ULID preserves order\<close>

text \<open>The Crockford alphabet is ascending, so fixed-width base-32 text orders as the
  numbers it writes.\<close>

lemma Encoding_sorted: "sorted_wrt (<) Encoding"
  by (simp add: Encoding_def less_char_def)

lemma length_Encoding: "length Encoding = 32"
  by (simp add: Encoding_def)

lemma Encoding_less: "i < j \<Longrightarrow> j < 32 \<Longrightarrow> Encoding ! i < Encoding ! j"
  using Encoding_sorted by (simp add: sorted_wrt_iff_nth_less length_Encoding)

lemma less_append_same_length:
  fixes xs ys :: string
  assumes "xs < ys" "length xs = length ys"
  shows "xs @ us < ys @ vs"
  using assms unfolding list_less_def by (simp add: lexord_sufI)

lemma less_append_same_prefix:
  fixes xs :: string
  shows "xs @ us < xs @ vs \<longleftrightarrow> us < vs"
  unfolding list_less_def
  by (simp add: lexord_same_pref_iff)

lemma less_append_iff:
  fixes xs ys :: string
  assumes "length xs = length ys"
  shows "xs @ us < ys @ vs \<longleftrightarrow> xs < ys \<or> (xs = ys \<and> us < vs)"
proof -
  consider "xs < ys" | "xs = ys" | "ys < xs" by (rule linorder_cases)
  then show ?thesis
  proof cases
    case 1
    then show ?thesis using less_append_same_length [OF 1 assms] by simp
  next
    case 2
    then show ?thesis by (simp add: less_append_same_prefix)
  next
    case 3
    from less_append_same_length [OF 3] assms have "ys @ vs < xs @ us" by simp
    then have "\<not> xs @ us < ys @ vs" by simp
    with 3 show ?thesis by auto
  qed
qed

lemma base32_mono: "a < b \<Longrightarrow> b < 32 ^ n \<Longrightarrow> base32 n a < base32 n b"
proof (induction n arbitrary: a b)
  case 0
  then show ?case by simp
next
  case (Suc n)
  have le: "a div 32 \<le> b div 32" using Suc.prems(1) by (simp add: div_le_mono)
  show ?case
  proof (cases "a div 32 = b div 32")
    case True
    have "a mod 32 < b mod 32"
      using Suc.prems(1) True by (metis div_mult_mod_eq nat_add_left_cancel_less)
    then have "Encoding ! (a mod 32) < Encoding ! (b mod 32)"
      by (rule Encoding_less) simp
    then show ?thesis
      by (simp add: True less_append_same_prefix)
  next
    case False
    with le have lt: "a div 32 < b div 32" by simp
    have "b div 32 < 32 ^ n"
      using Suc.prems(2) by (simp add: less_mult_imp_div_less mult.commute)
    from Suc.IH [OF lt this] show ?thesis
      by (simp add: less_append_same_length length_base32)
  qed
qed

lemma base32_mod: "base32 n v = base32 n (v mod 32 ^ n)"
proof (induction n arbitrary: v)
  case 0
  then show ?case by simp
next
  case (Suc n)
  have 1: "(v mod (32 * 32 ^ n)) div 32 = (v div 32) mod 32 ^ n"
    by (simp add: mod_mult2_eq)
  have 2: "(v mod (32 * 32 ^ n)) mod 32 = v mod 32"
    by (simp add: mod_mod_cancel)
  show ?case
    using Suc.IH [of "v div 32"] by (simp add: 1 2)
qed

lemma base32_less_iff: "base32 n a < base32 n b \<longleftrightarrow> a mod 32 ^ n < b mod 32 ^ n"
proof -
  let ?a = "a mod 32 ^ n" and ?b = "b mod 32 ^ n"
  have bound: "?a < 32 ^ n" "?b < 32 ^ n" by simp_all
  consider "?a < ?b" | "?a = ?b" | "?b < ?a" by linarith
  then have "base32 n ?a < base32 n ?b \<longleftrightarrow> ?a < ?b"
  proof cases
    case 1
    then show ?thesis using base32_mono [OF 1 bound(2)] by simp
  next
    case 2
    then show ?thesis by simp
  next
    case 3
    from base32_mono [OF 3 bound(1)] have "\<not> base32 n ?a < base32 n ?b" by simp
    with 3 show ?thesis by simp
  qed
  then show ?thesis
    using base32_mod [of n a] base32_mod [of n b] by simp
qed

lemma base32_eq_iff: "base32 n a = base32 n b \<longleftrightarrow> a mod 32 ^ n = b mod 32 ^ n"
proof
  assume "base32 n a = base32 n b"
  then have "\<not> base32 n a < base32 n b" "\<not> base32 n b < base32 n a" by simp_all
  then show "a mod 32 ^ n = b mod 32 ^ n"
    by (simp add: base32_less_iff)
next
  assume "a mod 32 ^ n = b mod 32 ^ n"
  then show "base32 n a = base32 n b"
    using base32_mod [of n a] base32_mod [of n b] by simp
qed

lemma ulid_String_less_iff:
  assumes "ms1 < 2 ^ 48" "ms2 < 2 ^ 48"
  shows "ulid_String ms1 e1 < ulid_String ms2 e2 \<longleftrightarrow>
           ms1 < ms2 \<or> (ms1 = ms2 \<and> e1 mod 2 ^ 80 < e2 mod 2 ^ 80)"
proof -
  have p: "(32::nat) ^ 10 = 2 ^ 50" "(32::nat) ^ 16 = 2 ^ 80" by simp_all
  have "(2::nat) ^ 48 \<le> 2 ^ 50" by simp
  with assms have m: "ms1 mod 32 ^ 10 = ms1" "ms2 mod 32 ^ 10 = ms2"
    unfolding p by simp_all
  show ?thesis
    unfolding ulid_String_def
    by (simp only: less_append_iff length_base32 base32_less_iff base32_eq_iff m p(2))
qed

lemma ulid_String_eq_iff:
  assumes "ms1 < 2 ^ 48" "ms2 < 2 ^ 48"
  shows "ulid_String ms1 e1 = ulid_String ms2 e2 \<longleftrightarrow>
           ms1 = ms2 \<and> e1 mod 2 ^ 80 = e2 mod 2 ^ 80"
proof -
  have p: "(32::nat) ^ 10 = 2 ^ 50" "(32::nat) ^ 16 = 2 ^ 80" by simp_all
  have "(2::nat) ^ 48 \<le> 2 ^ 50" by simp
  with assms have m: "ms1 mod 32 ^ 10 = ms1" "ms2 mod 32 ^ 10 = ms2"
    unfolding p by simp_all
  have "ulid_String ms1 e1 = ulid_String ms2 e2 \<longleftrightarrow>
          base32 10 ms1 = base32 10 ms2 \<and> base32 16 e1 = base32 16 e2"
    unfolding ulid_String_def by (simp add: length_base32)
  then show ?thesis
    by (simp only: base32_eq_iff m p(2))
qed

text \<open>
  Two identifiers compare as the pairs of millisecond and generator output: the
  identifier of reading \<open>t1\<close> is below that of \<open>t2\<close> exactly when \<open>t1\<close> lies in an earlier
  millisecond, or in the same one with the smaller 80-bit output of the generator
  seeded with the reading. No state is carried from one call to the next.
\<close>

lemma new_ULID_order:
  assumes "ulid_Timestamp t1 < 2 ^ 48" and "ulid_Timestamp t2 < 2 ^ 48"
  shows
    "(new_ULID rand_bytes t1 < new_ULID rand_bytes t2 \<longleftrightarrow>
        ulid_Timestamp t1 < ulid_Timestamp t2
        \<or> (ulid_Timestamp t1 = ulid_Timestamp t2
            \<and> rand_bytes t1 mod 2 ^ 80 < rand_bytes t2 mod 2 ^ 80))
   \<and> (new_ULID rand_bytes t1 = new_ULID rand_bytes t2 \<longleftrightarrow>
        ulid_Timestamp t1 = ulid_Timestamp t2
        \<and> rand_bytes t1 mod 2 ^ 80 = rand_bytes t2 mod 2 ^ 80)"
  unfolding new_ULID_def
  using ulid_String_less_iff [OF assms] ulid_String_eq_iff [OF assms] by simp

text \<open>Across milliseconds the identifiers follow the clock: calls whose readings fall
  in strictly increasing milliseconds get strictly increasing identifiers.\<close>

lemma identifiers_increase_with_milliseconds:
  assumes "sorted_wrt (<) (map ulid_Timestamp ts)"
    and "\<forall>t \<in> set ts. ulid_Timestamp t < 2 ^ 48"
  shows "sorted_wrt (<) (map (new_ULID rand_bytes) ts)
         \<and> distinct (map (new_ULID rand_bytes) ts)
         \<and> sorted (map (new_ULID rand_bytes) ts)"
proof -
  have step: "new_ULID rand_bytes a < new_ULID rand_bytes b"
    if "a \<in> set ts" "b \<in> set ts" "ulid_Timestamp a < ulid_Timestamp b" for a b
    using that assms(2) by (simp add: new_ULID_def ulid_String_less_iff)
  from assms(1) have "sorted_wrt (\<lambda>a b. ulid_Timestamp a < ulid_Timestamp b) ts"
    by (simp add: sorted_wrt_map)
  then have "sorted_wrt (\<lambda>a b. new_ULID rand_bytes a < new_ULID rand_bytes b) ts"
    by (rule sorted_wrt_mono_rel [rotated]) (rule step)
  then have "sorted_wrt (<) (map (new_ULID rand_bytes) ts)"
    by (simp add: sorted_wrt_map)
  then show ?thesis
    by (simp add: strict_sorted_iff)
qed

subsection \<open>Calls within one millisecond\<close>

text \<open>
  Claim C8 says that the identifiers of sequential \<open>Create\<close> calls are pairwise distinct
  and lexically non-decreasing. The code asks \<^verbatim>\<open>ulid.Monotonic\<close> for its entropy, but
  builds that source anew on every call and seeds it with the call's own clock reading:
  no entropy is carried from a call to the next. For two calls in one millisecond the
  identifiers are then in call order exactly when the outputs of two separately seeded
  generators happen to be; whenever the generator seeded with the later reading gives
  the smaller value, the later call gets the smaller identifier.
\<close>

theorem identifiers_within_one_millisecond:
  assumes "ulid_Timestamp t1 = ulid_Timestamp t2" and "ulid_Timestamp t2 < 2 ^ 48"
  shows
    "(new_ULID rand_bytes t1 \<le> new_ULID rand_bytes t2 \<longleftrightarrow>
        rand_bytes t1 mod 2 ^ 80 \<le> rand_bytes t2 mod 2 ^ 80)
   \<and> (rand_bytes t2 mod 2 ^ 80 < rand_bytes t1 mod 2 ^ 80 \<longrightarrow>
        new_ULID rand_bytes t2 < new_ULID rand_bytes t1)"
proof -
  define x where "x = rand_bytes t1 mod 2 ^ 80"
  define y where "y = rand_bytes t2 mod 2 ^ 80"
  from assms have b: "ulid_Timestamp t1 < 2 ^ 48" by (simp only:)
  have lt: "new_ULID rand_bytes t1 < new_ULID rand_bytes t2 \<longleftrightarrow> x < y"
    and eq: "new_ULID rand_bytes t1 = new_ULID rand_bytes t2 \<longleftrightarrow> x = y"
    using new_ULID_order [OF b assms(2), of rand_bytes] assms(1)
    unfolding x_def y_def by (simp_all only: less_irrefl simp_thms)
  have gt: "new_ULID rand_bytes t2 < new_ULID rand_bytes t1 \<longleftrightarrow> y < x"
    using new_ULID_order [OF assms(2) b, of rand_bytes] assms(1)
    unfolding x_def y_def by (simp only: less_irrefl simp_thms)
  have "new_ULID rand_bytes t1 \<le> new_ULID rand_bytes t2 \<longleftrightarrow> x \<le> y"
    unfolding list_le_def lt eq by (rule le_less [symmetric])
  with gt show ?thesis
    unfolding x_def y_def by (simp only: simp_thms)
qed

text \<open>
  Two readings a tenth of a millisecond apart, with a generator whose output falls as
  the seed grows standing for \<^verbatim>\<open>math/rand\<close>: the second call gets the smaller identifier.
\<close>

theorem identifiers_within_one_millisecond_witness:
  "(1700000000000000000::nat) < 1700000000000100000
   \<and> ulid_Timestamp 1700000000000000000 = ulid_Timestamp 1700000000000100000
   \<and> ulid_Timestamp 1700000000000100000 < 2 ^ 48
   \<and> (\<lambda>seed. 2 ^ 80 - 1 - seed) 1700000000000100000 mod 2 ^ 80
       < (\<lambda>seed. 2 ^ 80 - 1 - seed) (1700000000000000000::nat) mod (2 ^ 80 :: nat)
   \<and> new_ULID (\<lambda>seed. 2 ^ 80 - 1 - seed) 1700000000000100000
       < new_ULID (\<lambda>seed. 2 ^ 80 - 1 - seed) 1700000000000000000"
proof -
  have a: "ulid_Timestamp 1700000000000000000 = ulid_Timestamp 1700000000000100000"
    by (simp add: ulid_Timestamp_def)
  have b: "ulid_Timestamp 1700000000000100000 < 2 ^ 48"
    by (simp add: ulid_Timestamp_def)
  from a b identifiers_within_one_millisecond [OF a b, of "\<lambda>seed. 2 ^ 80 - 1 - seed"]
  show ?thesis by simp
qed

end
